theory Spec2Isabelle
  imports Complex_Main "HOL-Library.AList" "HOL-Library.Sublist" "HOL-Library.Multiset"
begin

section \<open>Values of the program\<close>

text \<open>
  \<^verbatim>\<open>music.py\<close> works on what \<^verbatim>\<open>json.loads\<close> returns: nested Python values
  without declared types. They are modelled as they are at run time:
  \<^item> a number (\<^verbatim>\<open>int\<close> or \<^verbatim>\<open>float\<close>) is an exact rational; the rounding of
    IEEE doubles, \<^verbatim>\<open>NaN\<close> and the infinities are not modelled;
  \<^item> a \<^verbatim>\<open>dict\<close> is an association list with distinct keys in insertion order;
    \<open>map_of\<close> reads it and \<open>AList.update\<close> is \<^verbatim>\<open>d[k] = v\<close> (an existing key
    keeps its place, a new one goes to the end);
  \<^item> a string is a list of 8-bit characters.
\<close>

datatype json =
    JNull
  | JBool bool
  | JNum rat
  | JStr string
  | JArr "json list"
  | JObj "(string \<times> json) list"

text \<open>
  The exceptions the program raises or lets through. \<open>RuntimeError\<close> and \<open>ApiError\<close>
  are raised by \<^verbatim>\<open>analyze_audio\<close> itself (the latter is
  \<^verbatim>\<open>Exception(f"API error: {status_code}")\<close>); the others come from Python's
  operators and from the libraries.
\<close>

datatype exn =
    RuntimeError string
  | ApiError int
  | JSONDecodeError
  | KeyError string
  | IndexError
  | TypeError
  | ZeroDivisionError
  | OSError
  | RequestException

subsection \<open>Python's operators on these values\<close>

text \<open>\<^verbatim>\<open>key in x\<close> for a string \<open>key\<close>: keys of a dict, elements of a list,
  substrings of a string; any other operand is not iterable.\<close>

fun py_contains :: "string \<Rightarrow> json \<Rightarrow> exn + bool" where
  "py_contains key (JObj kvs) = Inr (key \<in> set (map fst kvs))"
| "py_contains key (JArr xs) = Inr (JStr key \<in> set xs)"
| "py_contains key (JStr s) = Inr (sublist key s)"
| "py_contains key _ = Inl TypeError"

text \<open>\<^verbatim>\<open>x[key]\<close> for a string \<open>key\<close>: only a dict can be subscripted by a string.\<close>

fun py_getitem :: "json \<Rightarrow> string \<Rightarrow> exn + json" where
  "py_getitem (JObj kvs) key =
     (case map_of kvs key of None \<Rightarrow> Inl (KeyError key) | Some v \<Rightarrow> Inr v)"
| "py_getitem _ key = Inl TypeError"

text \<open>\<^verbatim>\<open>x[i]\<close> for a natural number \<open>i\<close>. The keys of a dict that came from JSON are
  strings, so an integer subscript is a missing key.\<close>

fun py_index :: "json \<Rightarrow> nat \<Rightarrow> exn + json" where
  "py_index (JArr xs) i = (if i < length xs then Inr (xs ! i) else Inl IndexError)"
| "py_index (JStr s) i = (if i < length s then Inr (JStr [s ! i]) else Inl IndexError)"
| "py_index (JObj kvs) i = Inl (KeyError ''0'')"
| "py_index _ i = Inl TypeError"

text \<open>The numeric value of an operand of \<^verbatim>\<open>-\<close>: \<^verbatim>\<open>bool\<close> is a subclass of
  \<^verbatim>\<open>int\<close> in Python.\<close>

fun py_number :: "json \<Rightarrow> rat option" where
  "py_number (JNum r) = Some r"
| "py_number (JBool b) = Some (if b then 1 else 0)"
| "py_number _ = None"

definition py_sub :: "json \<Rightarrow> json \<Rightarrow> exn + rat" where
  "py_sub a b =
     (case (py_number a, py_number b) of
        (Some x, Some y) \<Rightarrow> Inr (x - y)
      | _ \<Rightarrow> Inl TypeError)"

section \<open>The difference calculator\<close>

definition emotions :: "string list" where
  "emotions = [''amazement'', ''solemnity'', ''tenderness'', ''nostalgia'', ''calmness'',
               ''power'', ''joyful_activation'', ''tension'', ''sadness'']"

text \<open>One entry of the dict \<^verbatim>\<open>calculate_differences\<close> returns:
  \<^verbatim>\<open>{"diff_mean": ..., "diff_std": ...}\<close>.\<close>

record diff =
  diff_mean :: rat
  diff_std :: rat

type_synonym differences = "(string \<times> diff) list"

text \<open>\<^verbatim>\<open>abs(truth[emotion][field] - pred[emotion][field])\<close>, evaluated left to right.\<close>

definition abs_field_diff :: "json \<Rightarrow> json \<Rightarrow> string \<Rightarrow> string \<Rightarrow> exn + rat" where
  "abs_field_diff truth pred emotion field =
     (case py_getitem truth emotion of Inl e \<Rightarrow> Inl e | Inr t \<Rightarrow>
      case py_getitem t field of Inl e \<Rightarrow> Inl e | Inr tv \<Rightarrow>
      case py_getitem pred emotion of Inl e \<Rightarrow> Inl e | Inr p \<Rightarrow>
      case py_getitem p field of Inl e \<Rightarrow> Inl e | Inr pv \<Rightarrow>
      case py_sub tv pv of Inl e \<Rightarrow> Inl e | Inr d \<Rightarrow> Inr \<bar>d\<bar>)"

text \<open>The test \<^verbatim>\<open>emotion in truth and emotion in pred\<close>; \<^verbatim>\<open>and\<close> does not
  evaluate its right operand when the left one is false.\<close>

definition in_both :: "string \<Rightarrow> json \<Rightarrow> json \<Rightarrow> exn + bool" where
  "in_both emotion truth pred =
     (case py_contains emotion truth of Inl e \<Rightarrow> Inl e
      | Inr False \<Rightarrow> Inr False
      | Inr True \<Rightarrow> py_contains emotion pred)"

text \<open>The body of the loop of \<^verbatim>\<open>calculate_differences\<close>: the value stored at
  \<^verbatim>\<open>differences[emotion]\<close>.\<close>

definition emotion_diff :: "json \<Rightarrow> json \<Rightarrow> string \<Rightarrow> exn + diff" where
  "emotion_diff truth pred emotion =
     (case in_both emotion truth pred of Inl e \<Rightarrow> Inl e
      | Inr True \<Rightarrow>
          (case abs_field_diff truth pred emotion ''mean'' of Inl e \<Rightarrow> Inl e | Inr dm \<Rightarrow>
           case abs_field_diff truth pred emotion ''std'' of Inl e \<Rightarrow> Inl e | Inr ds \<Rightarrow>
           Inr \<lparr>diff_mean = dm, diff_std = ds\<rparr>)
      | Inr False \<Rightarrow> Inr \<lparr>diff_mean = 1.0, diff_std = 0.5\<rparr>)"

text \<open>The loop over \<^verbatim>\<open>emotions\<close>, with the dict built so far; the first exception
  ends it.\<close>

fun differences_loop :: "json \<Rightarrow> json \<Rightarrow> string list \<Rightarrow> differences \<Rightarrow> exn + differences" where
  "differences_loop truth pred [] acc = Inr acc"
| "differences_loop truth pred (emotion # rest) acc =
     (case emotion_diff truth pred emotion of
        Inl e \<Rightarrow> Inl e
      | Inr d \<Rightarrow> differences_loop truth pred rest (AList.update emotion d acc))"

definition calculate_differences :: "json \<Rightarrow> json \<Rightarrow> exn + differences" where
  "calculate_differences truth pred = differences_loop truth pred emotions []"

text \<open>
  The declared input type of the calculator (StatsBundle of the data model): a dict
  whose values are dicts with a number at \<^verbatim>\<open>"mean"\<close> and at \<^verbatim>\<open>"std"\<close>. Keys may
  be missing; nothing bounds the numbers.
\<close>

fun is_num :: "json \<Rightarrow> bool" where
  "is_num (JNum r) = True"
| "is_num _ = False"

fun is_stats :: "json \<Rightarrow> bool" where
  "is_stats (JObj fs) =
     (case (map_of fs ''mean'', map_of fs ''std'') of
        (Some m, Some s) \<Rightarrow> is_num m \<and> is_num s
      | _ \<Rightarrow> False)"
| "is_stats _ = False"

fun is_bundle :: "json \<Rightarrow> bool" where
  "is_bundle (JObj kvs) = list_all (\<lambda>kv. is_stats (snd kv)) kvs"
| "is_bundle _ = False"

text \<open>Reading a bundle: the statistics of an emotion, when the key is there.\<close>

fun num_of :: "json \<Rightarrow> rat" where
  "num_of (JNum r) = r"
| "num_of _ = 0"

definition stat :: "json \<Rightarrow> string \<Rightarrow> string \<Rightarrow> rat option" where
  "stat bundle emotion field =
     (case bundle of
        JObj kvs \<Rightarrow>
          (case map_of kvs emotion of
             Some (JObj fs) \<Rightarrow> map_option num_of (map_of fs field)
           | _ \<Rightarrow> None)
      | _ \<Rightarrow> None)"

definition has_key :: "json \<Rightarrow> string \<Rightarrow> bool" where
  "has_key bundle emotion = (case bundle of JObj kvs \<Rightarrow> emotion \<in> set (map fst kvs) | _ \<Rightarrow> False)"

text \<open>The expected range of a statistic, which the program does not enforce: the
  bundle has the number and it lies between \<open>lo\<close> and \<open>hi\<close>.\<close>

definition in_range :: "json \<Rightarrow> string \<Rightarrow> string \<Rightarrow> rat \<Rightarrow> rat \<Rightarrow> bool" where
  "in_range bundle emotion field lo hi =
     (case stat bundle emotion field of Some x \<Rightarrow> lo \<le> x \<and> x \<le> hi | None \<Rightarrow> False)"

section \<open>Formatting\<close>

text \<open>\<^verbatim>\<open>str(n)\<close> for an integer: its decimal digits.\<close>

definition digit_char :: "nat \<Rightarrow> char" where
  "digit_char d = ''0123456789'' ! (d mod 10)"

fun str_nat :: "nat \<Rightarrow> string" where
  "str_nat n = (if n < 10 then [digit_char n] else str_nat (n div 10) @ [digit_char (n mod 10)])"

declare str_nat.simps [simp del]

definition str_int :: "int \<Rightarrow> string" where
  "str_int i = (if i < 0 then ''-'' @ str_nat (nat (- i)) else str_nat (nat i))"

text \<open>
  \<^verbatim>\<open>f"{x:.4f}"\<close>: the sign, the integer part, a point and four decimals, rounded to
  the nearest multiple of \<open>1/10000\<close> (a tie goes to the even one, the decimal
  rounding of Python on the exact value of \<open>x\<close>).
\<close>

definition round_half_even :: "rat \<Rightarrow> int" where
  "round_half_even x =
     (let f = \<lfloor>x\<rfloor>; r = x - of_int f
      in if r < 1 / 2 then f else if 1 / 2 < r then f + 1 else if even f then f else f + 1)"

definition zfill4 :: "string \<Rightarrow> string" where
  "zfill4 s = replicate (4 - length s) (CHR ''0'') @ s"

definition fmt4 :: "rat \<Rightarrow> string" where
  "fmt4 x =
     (let n = nat (round_half_even (\<bar>x\<bar> * 10000))
      in (if x < 0 then ''-'' else []) @ str_nat (n div 10000) @ ''.'' @ zfill4 (str_nat (n mod 10000)))"

section \<open>The aggregator\<close>

text \<open>
  A \<^verbatim>\<open>pandas.DataFrame\<close>: the column labels and the rows, a cell being \<open>None\<close>
  where pandas has \<^verbatim>\<open>NaN\<close> (a record without that key). Built from a dict of
  columns, the labels are the keys; built from a list of records, they are the keys of
  the records in the order of their first appearance.
\<close>

record dataframe =
  df_columns :: "string list"
  df_rows :: "string option list list"

definition frame_of_columns :: "(string \<times> string list) list \<Rightarrow> dataframe" where
  "frame_of_columns cols =
     \<lparr>df_columns = map fst cols, df_rows = map (map Some) (transpose (map snd cols))\<rparr>"

definition record_keys :: "(string \<times> string) list list \<Rightarrow> string list" where
  "record_keys records =
     fold (\<lambda>k seen. if k \<in> set seen then seen else seen @ [k]) (concat (map (map fst) records)) []"

definition frame_of_records :: "(string \<times> string) list list \<Rightarrow> dataframe" where
  "frame_of_records records =
     \<lparr>df_columns = record_keys records,
      df_rows = map (\<lambda>r. map (map_of r) (record_keys records)) records\<rparr>"

type_synonym corpus = "(string \<times> differences) list"

text \<open>The inner loop of \<^verbatim>\<open>create_overall_summary_table\<close>: the pair is
  \<^verbatim>\<open>(all_mean_diffs, all_std_diffs)\<close>.\<close>

fun collect_song :: "differences \<Rightarrow> string list \<Rightarrow> rat list \<times> rat list \<Rightarrow> rat list \<times> rat list" where
  "collect_song song_diffs [] acc = acc"
| "collect_song song_diffs (emotion # rest) acc =
     (case map_of song_diffs emotion of
        Some d \<Rightarrow> collect_song song_diffs rest (fst acc @ [diff_mean d], snd acc @ [diff_std d])
      | None \<Rightarrow> collect_song song_diffs rest acc)"

text \<open>The outer loop, over \<^verbatim>\<open>all_differences.values()\<close>.\<close>

fun collect_all :: "corpus \<Rightarrow> rat list \<times> rat list \<Rightarrow> rat list \<times> rat list" where
  "collect_all [] acc = acc"
| "collect_all (entry # rest) acc = collect_all rest (collect_song (snd entry) emotions acc)"

text \<open>\<^verbatim>\<open>a / b\<close> raises when \<open>b\<close> is zero.\<close>

definition py_truediv :: "rat \<Rightarrow> rat \<Rightarrow> exn + rat" where
  "py_truediv a b = (if b = 0 then Inl ZeroDivisionError else Inr (a / b))"

text \<open>\<^verbatim>\<open>sum(xs) / len(xs) if xs else 0\<close>\<close>

definition average :: "rat list \<Rightarrow> exn + rat" where
  "average xs = (if xs \<noteq> [] then py_truediv (sum_list xs) (of_nat (length xs)) else Inr 0)"

definition create_overall_summary_table :: "corpus \<Rightarrow> exn + dataframe" where
  "create_overall_summary_table all_differences =
     (let collected = collect_all all_differences ([], []) in
      case average (fst collected) of Inl e \<Rightarrow> Inl e | Inr avg_mean_diff \<Rightarrow>
      case average (snd collected) of Inl e \<Rightarrow> Inl e | Inr avg_std_diff \<Rightarrow>
      Inr (frame_of_columns
             [(''Metric'', [''Average Difference in Mean'', ''Average Difference in Std'']),
              (''Value'', [fmt4 avg_mean_diff, fmt4 avg_std_diff])]))"



text \<open>What the loops of the summary read from one record: the values at the given
  keys that the record has, in the order of those keys.\<close>

definition record_values :: "(diff \<Rightarrow> rat) \<Rightarrow> differences \<Rightarrow> string list \<Rightarrow> rat list" where
  "record_values field song_diffs keys =
     concat (map (\<lambda>e. case map_of song_diffs e of Some d \<Rightarrow> [field d] | None \<Rightarrow> []) keys)"

text \<open>The value stored at \<^verbatim>\<open>mean_row[emotion]\<close> (with \<open>field = diff_mean\<close>) and
  at \<^verbatim>\<open>std_row[emotion]\<close> (with \<open>field = diff_std\<close>).\<close>

definition emotion_cell :: "(diff \<Rightarrow> rat) \<Rightarrow> differences \<Rightarrow> string \<Rightarrow> string" where
  "emotion_cell field song_diffs emotion =
     (case map_of song_diffs emotion of Some d \<Rightarrow> fmt4 (field d) | None \<Rightarrow> ''N/A'')"

text \<open>One row of the breakdown, a dict from column labels to cells.\<close>

definition metric_row :: "string \<Rightarrow> string \<Rightarrow> (diff \<Rightarrow> rat) \<Rightarrow> differences \<Rightarrow> (string \<times> string) list" where
  "metric_row song_id metric field song_diffs =
     fold (\<lambda>emotion row. AList.update emotion (emotion_cell field song_diffs emotion) row)
          emotions [(''song_id'', song_id), (''metric'', metric)]"

fun breakdown_rows :: "corpus \<Rightarrow> (string \<times> string) list list" where
  "breakdown_rows [] = []"
| "breakdown_rows (entry # rest) =
     metric_row (fst entry) ''diff_mean'' diff_mean (snd entry)
     # metric_row (fst entry) ''diff_std'' diff_std (snd entry)
     # breakdown_rows rest"

definition create_song_level_breakdown_table :: "corpus \<Rightarrow> dataframe" where
  "create_song_level_breakdown_table all_differences =
     frame_of_records (breakdown_rows all_differences)"

text \<open>The header the breakdown is meant to have, and the cells of one of its rows
  under that header.\<close>

definition breakdown_header :: "string list" where
  "breakdown_header = ''song_id'' # ''metric'' # emotions"

definition row_cells :: "string \<Rightarrow> string \<Rightarrow> (diff \<Rightarrow> rat) \<Rightarrow> differences \<Rightarrow> string option list" where
  "row_cells song_id metric field song_diffs =
     Some song_id # Some metric # map (\<lambda>e. Some (emotion_cell field song_diffs e)) emotions"

section \<open>The prompt\<close>

text \<open>\<^verbatim>\<open>"\n".join(lines)\<close>\<close>

fun join_lines :: "string list \<Rightarrow> string" where
  "join_lines [] = []"
| "join_lines [l] = l"
| "join_lines (l # ls) = l @ [CHR 0x0A] @ join_lines ls"

text \<open>The first line of the enumeration of the emotions and of the schema, for an
  emotion; the lines of the f-string of \<^verbatim>\<open>get_gems_prompt\<close> (where \<^verbatim>\<open>{{\<close> stands
  for one brace).\<close>

definition schema_entry :: "string \<Rightarrow> string" where
  \<open>schema_entry emotion = ''  "'' @ emotion @ ''": { "mean": 0.0, "std": 0.0 }''\<close>

definition emotion_definitions :: "string list" where
  "emotion_definitions =
     [''- amazement (wonder, awe, happiness)'',
      ''- solemnity (transcendence, inspiration, thrills)'',
      ''- tenderness (sensuality, affect, feeling of love)'',
      ''- nostalgia (dreamy, melancholic, sentimental)'',
      ''- calmness (relaxation, serenity, meditative)'',
      ''- power (strong, heroic, triumphant, energetic)'',
      ''- joyful_activation (bouncy, animated, like dancing)'',
      ''- tension (nervous, impatient, irritated)'',
      ''- sadness (depressed, sorrowful)'']"

definition prompt_lines :: "int \<Rightarrow> string list" where
  \<open>prompt_lines n_listeners =
     [''You are analyzing a music audio clip.'',
      ''This audio has been listened to and rated by N people.'',
      ''Each person indicated whether they strongly felt each of the following emotions while listening.'',
      ''The emotions are based on the Geneva Emotional Music Scales (GEMS):'']
     @ emotion_definitions @
     [''Each listener gives a binary response (0 or 1) for each emotion.'',
      ''Task:'',
      ''Assume N = '' @ str_int n_listeners @ '' listeners.'',
      ''Based only on the audio content:'',
      ''For each emotion, estimate:'',
      ''1. The average rating (mean, between 0 and 1)'',
      ''2. The standard deviation of the ratings (between 0 and 0.5)'',
      ''Output requirements:'',
      ''- Return JSON only'',
      ''- Use exactly the emotion keys listed above'',
      ''- Each emotion must contain:'',
      ''  - "mean": float'',
      ''  - "std": float'',
      ''- Do NOT include explanations, comments, or extra text'',
      ''- Do NOT add or remove emotions'',
      ''- Do NOT round excessively (use up to 4 decimal places)'',
      ''Output JSON schema:'',
      ''{'',
      schema_entry ''amazement'' @ '','',
      schema_entry ''solemnity'' @ '','',
      schema_entry ''tenderness'' @ '','',
      schema_entry ''nostalgia'' @ '','',
      schema_entry ''calmness'' @ '','',
      schema_entry ''power'' @ '','',
      schema_entry ''joyful_activation'' @ '','',
      schema_entry ''tension'' @ '','',
      schema_entry ''sadness'',
      ''}'']\<close>

definition get_gems_prompt :: "int \<Rightarrow> string" where
  "get_gems_prompt n_listeners = join_lines (prompt_lines n_listeners)"

section \<open>The inference client and the response extractor\<close>

subsection \<open>A model of \<^verbatim>\<open>json.loads\<close>\<close>

text \<open>
  \<^verbatim>\<open>json.loads\<close> is a library function. The program is modelled for any function
  \<open>loads\<close> from strings to values, \<open>None\<close> being \<^verbatim>\<open>JSONDecodeError\<close>; the
  theorems about the program hold for each such function. \<open>json_loads\<close> below is the
  decoder of Python on the ASCII fragment of JSON, for concrete runs: it does not
  read \<^verbatim>\<open>\u\<close> escapes, \<^verbatim>\<open>NaN\<close> or \<^verbatim>\<open>Infinity\<close>. The fuel bounds the depth of
  the recursion: of any two calls in a row at least one comes after a character was
  read, so twice the length of the text is enough.
\<close>

definition is_ws :: "char \<Rightarrow> bool" where
  "is_ws c = (c = CHR '' '' \<or> c = CHR 0x09 \<or> c = CHR 0x0A \<or> c = CHR 0x0D)"

definition skip_ws :: "string \<Rightarrow> string" where
  "skip_ws cs = dropWhile is_ws cs"

definition is_digit :: "char \<Rightarrow> bool" where
  "is_digit c = (c \<in> set ''0123456789'')"

definition digit_val :: "char \<Rightarrow> nat" where
  "digit_val c = of_char c - 48"

definition nat_of_digits :: "string \<Rightarrow> nat" where
  "nat_of_digits ds = fold (\<lambda>c n. 10 * n + digit_val c) ds 0"

definition starts_with :: "string \<Rightarrow> string \<Rightarrow> bool" where
  "starts_with p cs = (take (length p) cs = p)"

text \<open>The integer part: \<^verbatim>\<open>0\<close> or a digit from 1 to 9 followed by digits.\<close>

definition parse_int_part :: "string \<Rightarrow> (string \<times> string) option" where
  "parse_int_part cs =
     (case cs of
        [] \<Rightarrow> None
      | c # r \<Rightarrow>
          if c = CHR ''0'' then Some (''0'', r)
          else if is_digit c then Some (takeWhile is_digit cs, dropWhile is_digit cs)
          else None)"

text \<open>The fraction \<^verbatim>\<open>\.\d+\<close>, when it is there.\<close>

definition parse_frac_part :: "string \<Rightarrow> string \<times> string" where
  "parse_frac_part cs =
     (case cs of
        c # d # r \<Rightarrow>
          if c = CHR ''.'' \<and> is_digit d
          then (takeWhile is_digit (d # r), dropWhile is_digit (d # r))
          else ([], cs)
      | _ \<Rightarrow> ([], cs))"

text \<open>The exponent \<^verbatim>\<open>[eE][-+]?\d+\<close>, when it is there.\<close>

definition parse_exp_part :: "string \<Rightarrow> int \<times> string" where
  "parse_exp_part cs =
     (case cs of
        c # r \<Rightarrow>
          if c = CHR ''e'' \<or> c = CHR ''E'' then
            (let neg = starts_with ''-'' r;
                 r' = (if starts_with ''-'' r \<or> starts_with ''+'' r then tl r else r)
             in if r' \<noteq> [] \<and> is_digit (hd r')
                then ((if neg then - 1 else 1) * int (nat_of_digits (takeWhile is_digit r')),
                      dropWhile is_digit r')
                else (0, cs))
          else (0, cs)
      | [] \<Rightarrow> (0, cs))"

definition parse_number :: "string \<Rightarrow> (json \<times> string) option" where
  "parse_number cs =
     (let neg = starts_with ''-'' cs in
      case parse_int_part (if neg then tl cs else cs) of
        None \<Rightarrow> None
      | Some (ds, r1) \<Rightarrow>
          (let (fs, r2) = parse_frac_part r1;
               (ex, r3) = parse_exp_part r2;
               m = of_nat (nat_of_digits ds) + of_nat (nat_of_digits fs) / 10 ^ length fs;
               v = (if 0 \<le> ex then m * 10 ^ nat ex else m / 10 ^ nat (- ex))
           in Some (JNum (if neg then - v else v), r3)))"

text \<open>The characters of a string after its opening quote, up to the closing one.\<close>

definition unescape :: "char \<Rightarrow> char option" where
  \<open>unescape c =
     (if c = CHR ''"'' \<or> c = CHR 0x5C \<or> c = CHR ''/'' then Some c
      else if c = CHR ''b'' then Some (CHR 0x08)
      else if c = CHR ''f'' then Some (CHR 0x0C)
      else if c = CHR ''n'' then Some (CHR 0x0A)
      else if c = CHR ''r'' then Some (CHR 0x0D)
      else if c = CHR ''t'' then Some (CHR 0x09)
      else None)\<close>

fun parse_string :: "string \<Rightarrow> (string \<times> string) option" where
  \<open>parse_string [] = None\<close>
| \<open>parse_string (c # r) =
     (if c = CHR ''"'' then Some ([], r)
      else if c = CHR 0x5C then
        (case r of
           [] \<Rightarrow> None
         | e # r' \<Rightarrow>
             (case unescape e of
                None \<Rightarrow> None
              | Some u \<Rightarrow> map_option (\<lambda>(s, rest). (u # s, rest)) (parse_string r')))
      else if (of_char c :: nat) < 32 then None
      else map_option (\<lambda>(s, rest). (c # s, rest)) (parse_string r))\<close>

text \<open>\<^verbatim>\<open>dict(pairs)\<close>: a repeated key keeps its first place and its last value.\<close>

definition dict_of_pairs :: "(string \<times> 'v) list \<Rightarrow> (string \<times> 'v) list" where
  "dict_of_pairs pairs = fold (\<lambda>kv d. AList.update (fst kv) (snd kv) d) pairs []"

fun parse_value :: "nat \<Rightarrow> string \<Rightarrow> (json \<times> string) option"
  and parse_elements :: "nat \<Rightarrow> string \<Rightarrow> (json list \<times> string) option"
  and parse_members :: "nat \<Rightarrow> string \<Rightarrow> ((string \<times> json) list \<times> string) option"
where
  \<open>parse_value 0 cs = None\<close>
| \<open>parse_value (Suc n) cs =
     (if starts_with ''{'' cs then
        (if starts_with ''}'' (skip_ws (tl cs)) then Some (JObj [], tl (skip_ws (tl cs)))
         else map_option (\<lambda>(kvs, rest). (JObj (dict_of_pairs kvs), rest))
                (parse_members n (skip_ws (tl cs))))
      else if starts_with ''['' cs then
        (if starts_with '']'' (skip_ws (tl cs)) then Some (JArr [], tl (skip_ws (tl cs)))
         else map_option (\<lambda>(xs, rest). (JArr xs, rest)) (parse_elements n (skip_ws (tl cs))))
      else if starts_with ''"'' cs then
        map_option (\<lambda>(s, rest). (JStr s, rest)) (parse_string (tl cs))
      else if starts_with ''null'' cs then Some (JNull, drop 4 cs)
      else if starts_with ''true'' cs then Some (JBool True, drop 4 cs)
      else if starts_with ''false'' cs then Some (JBool False, drop 5 cs)
      else parse_number cs)\<close>
| \<open>parse_elements 0 cs = None\<close>
| \<open>parse_elements (Suc n) cs =
     (case parse_value n cs of
        None \<Rightarrow> None
      | Some (v, r) \<Rightarrow>
          (let r' = skip_ws r in
           if starts_with '','' r' then
             map_option (\<lambda>(vs, rest). (v # vs, rest)) (parse_elements n (skip_ws (tl r')))
           else if starts_with '']'' r' then Some ([v], tl r')
           else None))\<close>
| \<open>parse_members 0 cs = None\<close>
| \<open>parse_members (Suc n) cs =
     (if starts_with ''"'' cs then
        (case parse_string (tl cs) of
           None \<Rightarrow> None
         | Some (k, r) \<Rightarrow>
             (if starts_with '':'' (skip_ws r) then
                (case parse_value n (skip_ws (tl (skip_ws r))) of
                   None \<Rightarrow> None
                 | Some (v, r1) \<Rightarrow>
                     (let r' = skip_ws r1 in
                      if starts_with '','' r' then
                        map_option (\<lambda>(kvs, rest). ((k, v) # kvs, rest))
                          (parse_members n (skip_ws (tl r')))
                      else if starts_with ''}'' r' then Some ([(k, v)], tl r')
                      else None))
              else None))
      else None)\<close>

definition json_loads :: "string \<Rightarrow> json option" where
  "json_loads s =
     (case parse_value (2 * length s + 2) (skip_ws s) of
        None \<Rightarrow> None
      | Some (v, rest) \<Rightarrow> if skip_ws rest = [] then Some v else None)"

subsection \<open>The extractor\<close>

text \<open>
  \<^verbatim>\<open>re.search(r'\{.*\}', content, re.DOTALL)\<close>: the leftmost match starts at the
  first \<^verbatim>\<open>{\<close> that has a \<^verbatim>\<open>}\<close> after it, which is the first \<^verbatim>\<open>{\<close> of the text
  when there is a match at all; \<^verbatim>\<open>.*\<close> is greedy and, with \<^verbatim>\<open>DOTALL\<close>, crosses
  newlines, so the match ends at the last \<^verbatim>\<open>}\<close>.
\<close>

definition re_search_braces :: "string \<Rightarrow> string option" where
  "re_search_braces content =
     (case dropWhile (\<lambda>c. c \<noteq> CHR ''{'') content of
        [] \<Rightarrow> None
      | b # rest \<Rightarrow>
          if CHR ''}'' \<in> set rest
          then Some (b # rev (dropWhile (\<lambda>c. c \<noteq> CHR ''}'') (rev rest)))
          else None)"

text \<open>The last statement of \<^verbatim>\<open>analyze_audio\<close>: the \<^verbatim>\<open>try\<close> around
  \<^verbatim>\<open>json.loads(content)\<close> and its handler. The handler's own \<^verbatim>\<open>json.loads\<close> is
  outside every \<^verbatim>\<open>try\<close> of the function.\<close>

definition extract_json :: "(string \<Rightarrow> json option) \<Rightarrow> string \<Rightarrow> exn + json" where
  "extract_json loads content =
     (case loads content of
        Some v \<Rightarrow> Inr v
      | None \<Rightarrow>
          (case re_search_braces content of
             Some m \<Rightarrow> (case loads m of Some v \<Rightarrow> Inr v | None \<Rightarrow> Inl JSONDecodeError)
           | None \<Rightarrow> Inr (JObj [])))"

subsection \<open>The request\<close>

definition OPENROUTER_URL :: string where
  "OPENROUTER_URL = ''https://llmfoundry.straive.com/openrouter/v1/chat/completions''"

definition MODEL_NAME :: string where
  "MODEL_NAME = ''google/gemini-3-pro-preview''"

text \<open>What \<^verbatim>\<open>requests.post\<close> sends. \<open>audio_data\<close> stands for the bytes of the
  clip; their base64 text on the wire is not modelled.\<close>

record request =
  url :: string
  authorization :: string
  content_type :: string
  model_name :: string
  prompt_text :: string
  audio_data :: string
  audio_format :: string

record response =
  status_code :: int
  body :: string

text \<open>
  The outside of the program: the environment variable, the bytes of each clip
  (\<open>None\<close> when it cannot be read) and the endpoint, which answers the \<open>k\<close>-th
  request of a run with a response or with an exception of the transport.
\<close>

record world =
  api_key :: "string option"
  read_audio :: "string \<Rightarrow> string option"
  http_post :: "nat \<Rightarrow> request \<Rightarrow> exn + response"

text \<open>What the program does to the outside, in order: lines printed
  (\<open>Print_error e\<close> is \<^verbatim>\<open>print(f"  Error: {e}")\<close>), requests sent, files
  written, and the exception that ends the run when nothing catches it.\<close>

datatype event =
    Print string
  | Print_error exn
  | Post request
  | To_csv string dataframe
  | Uncaught exn

text \<open>\<^verbatim>\<open>response.json()['choices'][0]['message']['content']\<close>, then the decoding of
  the content, which \<^verbatim>\<open>json.loads\<close> refuses with a \<^verbatim>\<open>TypeError\<close> when it is not
  a string.\<close>

definition response_content :: "(string \<Rightarrow> json option) \<Rightarrow> response \<Rightarrow> exn + json" where
  "response_content loads resp =
     (case loads (body resp) of None \<Rightarrow> Inl JSONDecodeError | Some j \<Rightarrow>
      case py_getitem j ''choices'' of Inl e \<Rightarrow> Inl e | Inr cs \<Rightarrow>
      case py_index cs 0 of Inl e \<Rightarrow> Inl e | Inr c \<Rightarrow>
      case py_getitem c ''message'' of Inl e \<Rightarrow> Inl e | Inr m \<Rightarrow>
      py_getitem m ''content'')"

definition decode_content :: "(string \<Rightarrow> json option) \<Rightarrow> json \<Rightarrow> exn + json" where
  "decode_content loads content =
     (case content of JStr s \<Rightarrow> extract_json loads s | _ \<Rightarrow> Inl TypeError)"

text \<open>\<^verbatim>\<open>analyze_audio(audio_path, n_listeners)\<close>, as the \<open>k\<close>-th caller of the
  endpoint: the events of the call and its result. The clip is named by its stem.\<close>

definition analyze_audio ::
  "(string \<Rightarrow> json option) \<Rightarrow> world \<Rightarrow> nat \<Rightarrow> string \<Rightarrow> int \<Rightarrow> event list \<times> (exn + json)" where
  "analyze_audio loads w k audio_path n_listeners =
     (case api_key w of
        None \<Rightarrow> ([], Inl (RuntimeError ''OPENROUTER_API_KEY not set''))
      | Some key \<Rightarrow>
          if key = [] then ([], Inl (RuntimeError ''OPENROUTER_API_KEY not set''))
          else
            (case read_audio w audio_path of
               None \<Rightarrow> ([], Inl OSError)
             | Some bytes \<Rightarrow>
                 (let req = \<lparr>url = OPENROUTER_URL,
                             authorization = ''Bearer '' @ key,
                             content_type = ''application/json'',
                             model_name = MODEL_NAME,
                             prompt_text = get_gems_prompt n_listeners,
                             audio_data = bytes,
                             audio_format = ''audio/ogg''\<rparr>
                  in case http_post w k req of
                       Inl e \<Rightarrow> ([Post req], Inl e)
                     | Inr resp \<Rightarrow>
                         if status_code resp \<noteq> 200
                         then ([Post req], Inl (ApiError (status_code resp)))
                         else
                           (case response_content loads resp of
                              Inl e \<Rightarrow> ([Post req], Inl e)
                            | Inr content \<Rightarrow> ([Post req], decode_content loads content)))))"

section \<open>The orchestrator\<close>

text \<open>The listener counts of \<^verbatim>\<open>load_ground_truth_and_listeners\<close>.\<close>

definition listeners :: "(string \<times> int) list" where
  "listeners =
     [(''song_1'', 48), (''song_10'', 17), (''song_11'', 50), (''song_12'', 45),
      (''song_13'', 27), (''song_14'', 11), (''song_15'', 11), (''song_16'', 12),
      (''song_17'', 11), (''song_18'', 11), (''song_19'', 11), (''song_2'', 47),
      (''song_20'', 11), (''song_21'', 53), (''song_22'', 45), (''song_23'', 19),
      (''song_24'', 12), (''song_25'', 24), (''song_26'', 12), (''song_27'', 12),
      (''song_28'', 28), (''song_29'', 12), (''song_3'', 45), (''song_30'', 12),
      (''song_31'', 50), (''song_32'', 46), (''song_33'', 26), (''song_34'', 14),
      (''song_35'', 13), (''song_36'', 14), (''song_37'', 14), (''song_38'', 13),
      (''song_39'', 14), (''song_4'', 46), (''song_40'', 14), (''song_5'', 17),
      (''song_6'', 17), (''song_7'', 17), (''song_8'', 18), (''song_9'', 17)]"

text \<open>The state of the loop of \<^verbatim>\<open>main\<close>: the dict \<^verbatim>\<open>all_differences\<close> and what
  the run has done so far.\<close>

record state =
  all_differences :: corpus
  trace :: "event list"

definition emit :: "event list \<Rightarrow> state \<Rightarrow> state" where
  "emit evs st = st\<lparr>trace := trace st @ evs\<rparr>"

fun is_post :: "event \<Rightarrow> bool" where
  "is_post (Post r) = True"
| "is_post _ = False"

definition posts :: "state \<Rightarrow> nat" where
  "posts st = length (filter is_post (trace st))"

text \<open>The last \<^verbatim>\<open>print\<close> of the \<^verbatim>\<open>try\<close> block.\<close>

definition sample_line :: "differences \<Rightarrow> event" where
  "sample_line differences =
     (case map_of differences ''amazement'' of
        None \<Rightarrow> Print_error (KeyError ''amazement'')
      | Some a \<Rightarrow>
          (case map_of differences ''calmness'' of
             None \<Rightarrow> Print_error (KeyError ''calmness'')
           | Some c \<Rightarrow>
               Print (''  Sample diffs - amazement_mean: '' @ fmt4 (diff_mean a)
                      @ '', calmness_std: '' @ fmt4 (diff_std c))))"

text \<open>The \<^verbatim>\<open>try\<close> block of the loop and its handler, which catches every
  \<^verbatim>\<open>Exception\<close>, prints it and lets the loop go on.\<close>

definition try_clip :: "(string \<Rightarrow> json option) \<Rightarrow> world \<Rightarrow> (string \<times> json) list \<Rightarrow> string \<Rightarrow> state \<Rightarrow> state" where
  "try_clip loads w truth_data song_id st =
     (case map_of listeners song_id of
        None \<Rightarrow> emit [Print_error (KeyError song_id)] st
      | Some n_listeners \<Rightarrow>
          (let (evs, result) = analyze_audio loads w (posts st) song_id n_listeners;
               st1 = emit evs st
           in case result of
                Inl e \<Rightarrow> emit [Print_error e] st1
              | Inr pred \<Rightarrow>
                  (case map_of truth_data song_id of
                     None \<Rightarrow> emit [Print_error (KeyError song_id)] st1
                   | Some truth \<Rightarrow>
                       (case calculate_differences truth pred of
                          Inl e \<Rightarrow> emit [Print_error e] st1
                        | Inr differences \<Rightarrow>
                            emit [sample_line differences]
                              (st1\<lparr>all_differences :=
                                     AList.update song_id differences (all_differences st1)\<rparr>)))))"

text \<open>One iteration of the loop over the clips.\<close>

definition process_clip :: "(string \<Rightarrow> json option) \<Rightarrow> world \<Rightarrow> (string \<times> json) list \<Rightarrow> string \<Rightarrow> state \<Rightarrow> state" where
  "process_clip loads w truth_data song_id st =
     (if song_id \<notin> set (map fst truth_data) \<or> song_id \<notin> set (map fst listeners)
      then emit [Print (''Skipping '' @ song_id @ '': no truth data or listener count'')] st
      else try_clip loads w truth_data song_id
             (emit [Print (''Processing '' @ song_id @ ''...'')] st))"

text \<open>The end of \<^verbatim>\<open>main\<close>, after the loop: the two tables are built and written
  when \<^verbatim>\<open>all_differences\<close> is not empty. Nothing catches an exception here.\<close>

definition save_results :: "state \<Rightarrow> state" where
  "save_results st =
     (if all_differences st \<noteq> [] then
        (case create_overall_summary_table (all_differences st) of
           Inl e \<Rightarrow>
             emit [Print ([CHR 0x0A] @ ''Processed ''
                          @ str_nat (length (all_differences st)) @ '' songs''),
                   Uncaught e] st
         | Inr summary_table \<Rightarrow>
             emit [Print ([CHR 0x0A] @ ''Processed ''
                          @ str_nat (length (all_differences st)) @ '' songs''),
                   To_csv ''table1_overall_summary.csv'' summary_table,
                   To_csv ''table2_song_breakdown.csv''
                     (create_song_level_breakdown_table (all_differences st))] st)
      else emit [Print ''No results to save''] st)"

text \<open>The state when the loop starts: the ground truth is loaded and
  \<^verbatim>\<open>all_differences\<close> is empty.\<close>

definition initial_state :: "(string \<times> json) list \<Rightarrow> state" where
  "initial_state truth_data =
     \<lparr>all_differences = [],
      trace = [Print (''Loaded truth data for '' @ str_nat (length truth_data) @ '' songs'')]\<rparr>"

text \<open>
  \<^verbatim>\<open>main()\<close>. \<open>truth_store\<close> is \<open>None\<close> when the ground-truth file does not
  exist, and otherwise the JSON object it holds (a file that holds anything else is
  not modelled); \<open>audio_files\<close> are the stems of the files the glob yields, in its
  order.
\<close>

definition main :: "(string \<Rightarrow> json option) \<Rightarrow> world \<Rightarrow> (string \<times> json) list option \<Rightarrow> string list \<Rightarrow> state" where
  "main loads w truth_store audio_files =
     (case truth_store of
        None \<Rightarrow>
          \<lparr>all_differences = [],
           trace = [Print ''Error: Truth data file not found: emotify_song_level_stats.json'']\<rparr>
      | Some truth_data \<Rightarrow>
          save_results (fold (process_clip loads w truth_data) audio_files
                          (initial_state truth_data)))"

text \<open>A clip the loop does not skip: it has ground truth and a listener count.\<close>

definition eligible :: "(string \<times> json) list \<Rightarrow> string \<Rightarrow> bool" where
  "eligible truth_data song_id =
     (song_id \<in> set (map fst truth_data) \<and> song_id \<in> set (map fst listeners))"

section \<open>Properties of the difference calculator\<close>

lemma distinct_emotions: "distinct emotions"
  by (simp add: emotions_def)

lemma differences_loop_keys:
  "differences_loop truth pred es acc = Inr d \<Longrightarrow> distinct es \<Longrightarrow>
   set es \<inter> set (map fst acc) = {} \<Longrightarrow> map fst d = map fst acc @ es"
proof (induction es arbitrary: acc)
  case Nil
  then show ?case by simp
next
  case (Cons e es)
  from Cons.prems(1) obtain v where v: "emotion_diff truth pred e = Inr v"
    and loop: "differences_loop truth pred es (AList.update e v acc) = Inr d"
    by (auto split: sum.splits)
  have fresh: "e \<notin> set (map fst acc)" using Cons.prems(3) by auto
  have keys: "map fst (AList.update e v acc) = map fst acc @ [e]"
    using fresh by (simp add: update_keys)
  have "map fst d = map fst (AList.update e v acc) @ es"
  proof (rule Cons.IH [OF loop])
    show "distinct es" using Cons.prems(2) by simp
    show "set es \<inter> set (map fst (AList.update e v acc)) = {}"
      using Cons.prems(2,3) keys by auto
  qed
  then show ?case using keys by simp
qed

lemma differences_loop_lookup:
  "differences_loop truth pred es acc = Inr d \<Longrightarrow>
   map_of d k = (if k \<in> set es then (case emotion_diff truth pred k of Inr v \<Rightarrow> Some v | Inl e \<Rightarrow> None)
                 else map_of acc k)"
proof (induction es arbitrary: acc)
  case Nil
  then show ?case by simp
next
  case (Cons e es)
  from Cons.prems obtain v where v: "emotion_diff truth pred e = Inr v"
    and loop: "differences_loop truth pred es (AList.update e v acc) = Inr d"
    by (auto split: sum.splits)
  show ?case
    using Cons.IH [OF loop] v by (auto simp: update_conv')
qed

lemma differences_loop_total:
  "\<forall>e \<in> set es. \<exists>v. emotion_diff truth pred e = Inr v \<Longrightarrow>
   \<exists>d. differences_loop truth pred es acc = Inr d"
  by (induction es arbitrary: acc) auto

lemma is_stats_fields:
  assumes "is_stats v"
  obtains fs m s where "v = JObj fs" "map_of fs ''mean'' = Some (JNum m)" "map_of fs ''std'' = Some (JNum s)"
proof (cases v)
  case (JObj fs)
  with assms obtain a b where ab: "map_of fs ''mean'' = Some a" "map_of fs ''std'' = Some b" "is_num a" "is_num b"
    by (auto split: option.splits)
  then obtain m s where "a = JNum m" "b = JNum s"
    by (cases a; cases b) auto
  with ab JObj that show ?thesis by blast
qed (use assms in auto)

lemma is_bundle_lookup:
  assumes "is_bundle b" "has_key b k"
  obtains kvs fs m s where "b = JObj kvs" "map_of kvs k = Some (JObj fs)"
    "map_of fs ''mean'' = Some (JNum m)" "map_of fs ''std'' = Some (JNum s)"
proof (cases b)
  case (JObj kvs)
  with assms(2) have "k \<in> set (map fst kvs)" by (simp add: has_key_def)
  then obtain v where v: "map_of kvs k = Some v"
    by (metis map_of_eq_None_iff not_Some_eq set_map)
  then have "(k, v) \<in> set kvs" by (rule map_of_SomeD)
  with assms(1) JObj have "is_stats v" by (auto simp: list_all_iff)
  then obtain fs m s where "v = JObj fs" "map_of fs ''mean'' = Some (JNum m)" "map_of fs ''std'' = Some (JNum s)"
    by (rule is_stats_fields)
  with v JObj that show ?thesis by blast
qed (use assms in \<open>auto simp: has_key_def\<close>)

lemma py_contains_bundle: "is_bundle b \<Longrightarrow> py_contains k b = Inr (has_key b k)"
  by (cases b) (auto simp: has_key_def)

lemma emotion_diff_missing:
  assumes "is_bundle truth" "is_bundle pred" "\<not> (has_key truth k \<and> has_key pred k)"
  shows "emotion_diff truth pred k = Inr \<lparr>diff_mean = 1, diff_std = 1 / 2\<rparr>"
proof -
  have "in_both k truth pred = Inr False"
    using assms by (cases "has_key truth k") (simp_all add: in_both_def py_contains_bundle)
  then show ?thesis by (simp add: emotion_diff_def)
qed

lemma emotion_diff_present:
  assumes "is_bundle truth" "is_bundle pred" "has_key truth k" "has_key pred k"
  shows "\<exists>tm ts pm ps.
           stat truth k ''mean'' = Some tm \<and> stat truth k ''std'' = Some ts \<and>
           stat pred k ''mean'' = Some pm \<and> stat pred k ''std'' = Some ps \<and>
           emotion_diff truth pred k = Inr \<lparr>diff_mean = \<bar>tm - pm\<bar>, diff_std = \<bar>ts - ps\<bar>\<rparr>"
proof -
  from assms(1,3) obtain tk tf tm ts where t: "truth = JObj tk" "map_of tk k = Some (JObj tf)"
    "map_of tf ''mean'' = Some (JNum tm)" "map_of tf ''std'' = Some (JNum ts)"
    by (rule is_bundle_lookup)
  from assms(2,4) obtain pk pf pm ps where p: "pred = JObj pk" "map_of pk k = Some (JObj pf)"
    "map_of pf ''mean'' = Some (JNum pm)" "map_of pf ''std'' = Some (JNum ps)"
    by (rule is_bundle_lookup)
  have "in_both k truth pred = Inr True"
    using assms by (simp add: in_both_def py_contains_bundle)
  moreover have "abs_field_diff truth pred k ''mean'' = Inr \<bar>tm - pm\<bar>"
    using t p by (simp add: abs_field_diff_def py_sub_def)
  moreover have "abs_field_diff truth pred k ''std'' = Inr \<bar>ts - ps\<bar>"
    using t p by (simp add: abs_field_diff_def py_sub_def)
  ultimately have "emotion_diff truth pred k = Inr \<lparr>diff_mean = \<bar>tm - pm\<bar>, diff_std = \<bar>ts - ps\<bar>\<rparr>"
    by (simp add: emotion_diff_def)
  moreover have "stat truth k ''mean'' = Some tm" "stat truth k ''std'' = Some ts"
    "stat pred k ''mean'' = Some pm" "stat pred k ''std'' = Some ps"
    using t p by (simp_all add: stat_def)
  ultimately show ?thesis by blast
qed

lemma emotion_diff_bundle_total:
  assumes "is_bundle truth" "is_bundle pred"
  shows "\<exists>v. emotion_diff truth pred k = Inr v"
proof (cases "has_key truth k \<and> has_key pred k")
  case True
  then show ?thesis using emotion_diff_present [OF assms, of k] by blast
next
  case False
  then show ?thesis using emotion_diff_missing [OF assms] by blast
qed

lemma calculate_differences_total:
  assumes "is_bundle truth" "is_bundle pred"
  shows "\<exists>d. calculate_differences truth pred = Inr d"
  unfolding calculate_differences_def
  by (rule differences_loop_total) (simp add: emotion_diff_bundle_total [OF assms])

lemma calculate_differences_lookup:
  assumes "calculate_differences truth pred = Inr d" "k \<in> set emotions"
  shows "\<exists>v. emotion_diff truth pred k = Inr v \<and> map_of d k = Some v"
proof -
  have m: "map_of d k = (case emotion_diff truth pred k of Inr v \<Rightarrow> Some v | Inl e \<Rightarrow> None)"
    using differences_loop_lookup [OF assms(1) [unfolded calculate_differences_def], of k] assms(2)
    by simp
  have "k \<in> set (map fst d)"
    using differences_loop_keys [OF assms(1) [unfolded calculate_differences_def]] assms(2)
      distinct_emotions by simp
  then have "map_of d k \<noteq> None"
    by (simp add: map_of_eq_None_iff)
  with m show ?thesis by (auto split: sum.splits)
qed

lemma calculate_differences_keys:
  "calculate_differences truth pred = Inr d \<Longrightarrow> map fst d = emotions"
  using differences_loop_keys [of truth pred emotions "[]" d] distinct_emotions
  by (simp add: calculate_differences_def)



text \<open>
  C3, as the specification states it: every \<open>diff_mean\<close> of a record the calculator
  returns is at most 1.0 and every \<open>diff_std\<close> at most 0.5. The calculator does not
  clamp its inputs: a prediction with a mean of 1.5 and a deviation of 0.9, against a
  truth of 0.2 and 0.1, gives a \<open>diff_mean\<close> of 1.3 and a \<open>diff_std\<close> of 0.8.
\<close>

theorem bounds_counterexample:
  "is_bundle (JObj [(''amazement'', JObj [(''mean'', JNum 0.2), (''std'', JNum 0.1)])]) \<and>
   is_bundle (JObj [(''amazement'', JObj [(''mean'', JNum 1.5), (''std'', JNum 0.9)])]) \<and>
   calculate_differences
     (JObj [(''amazement'', JObj [(''mean'', JNum 0.2), (''std'', JNum 0.1)])])
     (JObj [(''amazement'', JObj [(''mean'', JNum 1.5), (''std'', JNum 0.9)])])
   = Inr [(''amazement'', \<lparr>diff_mean = 1.3, diff_std = 0.8\<rparr>),
          (''solemnity'', \<lparr>diff_mean = 1.0, diff_std = 0.5\<rparr>),
          (''tenderness'', \<lparr>diff_mean = 1.0, diff_std = 0.5\<rparr>),
          (''nostalgia'', \<lparr>diff_mean = 1.0, diff_std = 0.5\<rparr>),
          (''calmness'', \<lparr>diff_mean = 1.0, diff_std = 0.5\<rparr>),
          (''power'', \<lparr>diff_mean = 1.0, diff_std = 0.5\<rparr>),
          (''joyful_activation'', \<lparr>diff_mean = 1.0, diff_std = 0.5\<rparr>),
          (''tension'', \<lparr>diff_mean = 1.0, diff_std = 0.5\<rparr>),
          (''sadness'', \<lparr>diff_mean = 1.0, diff_std = 0.5\<rparr>)] \<and>
   \<not> diff_mean \<lparr>diff_mean = 1.3, diff_std = 0.8\<rparr> \<le> 1.0 \<and>
   \<not> diff_std \<lparr>diff_mean = 1.3, diff_std = 0.8\<rparr> \<le> 0.5"
  by (simp add: calculate_differences_def emotions_def emotion_diff_def in_both_def
      abs_field_diff_def py_sub_def)

text \<open>
  C3, amended: in a record the calculator returns for two bundles, \<open>diff_mean\<close> and
  \<open>diff_std\<close> are never negative; \<open>diff_mean\<close> is at most 1.0 for an emotion that is
  missing from either bundle or whose two means lie in \<open>[0, 1]\<close>, and \<open>diff_std\<close> is
  at most 0.5 for an emotion that is missing from either bundle or whose two
  deviations lie in \<open>[0, 0.5]\<close>.
\<close>

theorem differences_bounded:
  assumes "is_bundle truth" "is_bundle pred"
    and "calculate_differences truth pred = Inr d" "map_of d k = Some v"
  shows "0 \<le> diff_mean v \<and> 0 \<le> diff_std v \<and>
     (\<not> (has_key truth k \<and> has_key pred k) \<or>
        in_range truth k ''mean'' 0 1 \<and> in_range pred k ''mean'' 0 1 \<longrightarrow> diff_mean v \<le> 1.0) \<and>
     (\<not> (has_key truth k \<and> has_key pred k) \<or>
        in_range truth k ''std'' 0 0.5 \<and> in_range pred k ''std'' 0 0.5 \<longrightarrow> diff_std v \<le> 0.5)"
proof -
  have "k \<in> set (map fst d)"
    using assms(4) by (metis map_of_eq_None_iff option.distinct(1) set_map)
  then have k: "k \<in> set emotions"
    using calculate_differences_keys [OF assms(3)] by simp
  from calculate_differences_lookup [OF assms(3) k] assms(4)
  have v: "emotion_diff truth pred k = Inr v" by auto
  show ?thesis
  proof (cases "has_key truth k \<and> has_key pred k")
    case False
    with emotion_diff_missing [OF assms(1,2) False] v show ?thesis by auto
  next
    case True
    with emotion_diff_present [OF assms(1,2), of k] v
    obtain tm ts pm ps where st: "stat truth k ''mean'' = Some tm" "stat truth k ''std'' = Some ts"
      "stat pred k ''mean'' = Some pm" "stat pred k ''std'' = Some ps"
      and vv: "v = \<lparr>diff_mean = \<bar>tm - pm\<bar>, diff_std = \<bar>ts - ps\<bar>\<rparr>"
      by auto
    have m: "\<bar>tm - pm\<bar> \<le> 1" if "0 \<le> tm" "tm \<le> 1" "0 \<le> pm" "pm \<le> 1"
      using that by linarith
    have s: "\<bar>ts - ps\<bar> \<le> 1 / 2" if "0 \<le> ts" "ts \<le> 1 / 2" "0 \<le> ps" "ps \<le> 1 / 2"
      using that by linarith
    show ?thesis using True st vv m s by (simp add: in_range_def)
  qed
qed

text \<open>A run of the amended C3, on statistics within their ranges.\<close>

theorem differences_bounded_witness:
  "is_bundle (JObj [(''amazement'', JObj [(''mean'', JNum 0.8), (''std'', JNum 0.1)])]) \<and>
   is_bundle (JObj [(''amazement'', JObj [(''mean'', JNum 0.6), (''std'', JNum 0.4)])]) \<and>
   calculate_differences
     (JObj [(''amazement'', JObj [(''mean'', JNum 0.8), (''std'', JNum 0.1)])])
     (JObj [(''amazement'', JObj [(''mean'', JNum 0.6), (''std'', JNum 0.4)])])
   = Inr [(''amazement'', \<lparr>diff_mean = 0.2, diff_std = 0.3\<rparr>),
          (''solemnity'', \<lparr>diff_mean = 1.0, diff_std = 0.5\<rparr>),
          (''tenderness'', \<lparr>diff_mean = 1.0, diff_std = 0.5\<rparr>),
          (''nostalgia'', \<lparr>diff_mean = 1.0, diff_std = 0.5\<rparr>),
          (''calmness'', \<lparr>diff_mean = 1.0, diff_std = 0.5\<rparr>),
          (''power'', \<lparr>diff_mean = 1.0, diff_std = 0.5\<rparr>),
          (''joyful_activation'', \<lparr>diff_mean = 1.0, diff_std = 0.5\<rparr>),
          (''tension'', \<lparr>diff_mean = 1.0, diff_std = 0.5\<rparr>),
          (''sadness'', \<lparr>diff_mean = 1.0, diff_std = 0.5\<rparr>)] \<and>
   in_range (JObj [(''amazement'', JObj [(''mean'', JNum 0.8), (''std'', JNum 0.1)])])
     ''amazement'' ''mean'' 0 1 \<and>
   in_range (JObj [(''amazement'', JObj [(''mean'', JNum 0.6), (''std'', JNum 0.4)])])
     ''amazement'' ''mean'' 0 1 \<and>
   in_range (JObj [(''amazement'', JObj [(''mean'', JNum 0.8), (''std'', JNum 0.1)])])
     ''amazement'' ''std'' 0 0.5 \<and>
   in_range (JObj [(''amazement'', JObj [(''mean'', JNum 0.6), (''std'', JNum 0.4)])])
     ''amazement'' ''std'' 0 0.5 \<and>
   0 \<le> diff_mean \<lparr>diff_mean = 0.2, diff_std = 0.3\<rparr> \<and>
   0 \<le> diff_std \<lparr>diff_mean = 0.2, diff_std = 0.3\<rparr> \<and>
   diff_mean \<lparr>diff_mean = 0.2, diff_std = 0.3\<rparr> \<le> 1.0 \<and>
   diff_std \<lparr>diff_mean = 0.2, diff_std = 0.3\<rparr> \<le> 0.5"
proof -
  let ?T = "JObj [(''amazement'', JObj [(''mean'', JNum 0.8), (''std'', JNum 0.1)])]"
  let ?P = "JObj [(''amazement'', JObj [(''mean'', JNum 0.6), (''std'', JNum 0.4)])]"
  let ?D = "[(''amazement'', \<lparr>diff_mean = 0.2, diff_std = 0.3\<rparr>),
          (''solemnity'', \<lparr>diff_mean = 1.0, diff_std = 0.5\<rparr>),
          (''tenderness'', \<lparr>diff_mean = 1.0, diff_std = 0.5\<rparr>),
          (''nostalgia'', \<lparr>diff_mean = 1.0, diff_std = 0.5\<rparr>),
          (''calmness'', \<lparr>diff_mean = 1.0, diff_std = 0.5\<rparr>),
          (''power'', \<lparr>diff_mean = 1.0, diff_std = 0.5\<rparr>),
          (''joyful_activation'', \<lparr>diff_mean = 1.0, diff_std = 0.5\<rparr>),
          (''tension'', \<lparr>diff_mean = 1.0, diff_std = 0.5\<rparr>),
          (''sadness'', \<lparr>diff_mean = 1.0, diff_std = (0.5 :: rat)\<rparr>)]"
  have t: "is_bundle ?T" and p: "is_bundle ?P" by simp_all
  have d: "calculate_differences ?T ?P = Inr ?D"
    by (simp add: calculate_differences_def emotions_def emotion_diff_def in_both_def
        abs_field_diff_def py_sub_def)
  have v: "map_of ?D ''amazement'' = Some \<lparr>diff_mean = 0.2, diff_std = 0.3\<rparr>" by simp
  have r: "in_range ?T ''amazement'' ''mean'' 0 1" "in_range ?P ''amazement'' ''mean'' 0 1"
    "in_range ?T ''amazement'' ''std'' 0 0.5" "in_range ?P ''amazement'' ''std'' 0 0.5"
    by (simp_all add: in_range_def stat_def)
  from differences_bounded [OF t p d v] r t p d show ?thesis by simp
qed

section \<open>Properties of the aggregator\<close>

lemma metric_row_eq:
  "metric_row song_id metric field song_diffs =
     (''song_id'', song_id) # (''metric'', metric)
     # map (\<lambda>e. (e, emotion_cell field song_diffs e)) emotions"
  by (simp add: metric_row_def emotions_def)

lemma distinct_breakdown_header: "distinct breakdown_header"
  by (simp add: breakdown_header_def emotions_def)

lemma metric_row_keys: "map fst (metric_row song_id metric field song_diffs) = breakdown_header"
  by (simp add: metric_row_eq comp_def breakdown_header_def)

lemma breakdown_rows_keys:
  "r \<in> set (breakdown_rows all) \<Longrightarrow> map fst r = breakdown_header"
  by (induction all) (auto simp: metric_row_keys)

lemma length_breakdown_rows: "length (breakdown_rows all) = 2 * length all"
  by (induction all) auto

lemma fold_seen_subset:
  "set ks \<subseteq> set seen \<Longrightarrow>
   fold (\<lambda>k seen. if k \<in> set seen then seen else seen @ [k]) ks seen = seen"
  by (induction ks arbitrary: seen) auto

lemma fold_seen_fresh:
  "distinct (seen @ ks) \<Longrightarrow>
   fold (\<lambda>k seen. if k \<in> set seen then seen else seen @ [k]) ks seen = seen @ ks"
  by (induction ks arbitrary: seen) auto

lemma record_keys_uniform:
  assumes "records \<noteq> []" "\<forall>r \<in> set records. map fst r = K" "distinct K"
  shows "record_keys records = K"
proof -
  from assms(1) obtain r rs where rs: "records = r # rs" by (cases records) auto
  have r: "map fst r = K" using assms(2) rs by simp
  have rest: "set (concat (map (map fst) rs)) \<subseteq> set K"
    using assms(2) rs by auto
  have "record_keys records =
        fold (\<lambda>k seen. if k \<in> set seen then seen else seen @ [k]) (concat (map (map fst) rs))
          (fold (\<lambda>k seen. if k \<in> set seen then seen else seen @ [k]) K [])"
    by (simp add: record_keys_def rs r)
  also have "fold (\<lambda>k seen. if k \<in> set seen then seen else seen @ [k]) K [] = K"
    using fold_seen_fresh [of "[]" K] assms(3) by simp
  also have "fold (\<lambda>k seen. if k \<in> set seen then seen else seen @ [k]) (concat (map (map fst) rs)) K = K"
    by (rule fold_seen_subset [OF rest])
  finally show ?thesis .
qed

lemma map_of_own_keys:
  "distinct (map fst r) \<Longrightarrow> map (map_of r) (map fst r) = map (\<lambda>kv. Some (snd kv)) r"
proof (induction r)
  case Nil
  then show ?case by simp
next
  case (Cons a r)
  have "\<forall>k \<in> set (map fst r). map_of (a # r) k = map_of r k"
    using Cons.prems by (cases a) force
  then have "map (map_of (a # r)) (map fst r) = map (map_of r) (map fst r)"
    by (intro map_cong) auto
  with Cons show ?case by simp
qed

lemma breakdown_columns:
  assumes "all \<noteq> []"
  shows "record_keys (breakdown_rows all) = breakdown_header"
proof (rule record_keys_uniform)
  show "breakdown_rows all \<noteq> []" using assms by (cases all) auto
  show "\<forall>r\<in>set (breakdown_rows all). map fst r = breakdown_header"
    by (simp add: breakdown_rows_keys)
  show "distinct breakdown_header"
    by (rule distinct_breakdown_header)
qed

lemma breakdown_row_cells:
  "map (map_of (metric_row song_id metric field song_diffs)) breakdown_header =
   row_cells song_id metric field song_diffs"
proof -
  have d: "distinct (map fst (metric_row song_id metric field song_diffs))"
    by (simp add: metric_row_keys distinct_breakdown_header)
  have "map (map_of (metric_row song_id metric field song_diffs))
          (map fst (metric_row song_id metric field song_diffs)) =
        row_cells song_id metric field song_diffs"
    unfolding map_of_own_keys [OF d]
    by (simp add: metric_row_eq comp_def row_cells_def)
  then show ?thesis by (simp add: metric_row_keys)
qed

lemma breakdown_table_rows:
  "map (\<lambda>r. map (map_of r) breakdown_header) (breakdown_rows all) =
   concat (map (\<lambda>entry. [row_cells (fst entry) ''diff_mean'' diff_mean (snd entry),
                          row_cells (fst entry) ''diff_std'' diff_std (snd entry)]) all)"
  by (induction all) (simp_all add: breakdown_row_cells)

lemma breakdown_table_nonempty:
  assumes "all \<noteq> []"
  shows "create_song_level_breakdown_table all =
     \<lparr>df_columns = breakdown_header,
      df_rows = concat (map (\<lambda>entry. [row_cells (fst entry) ''diff_mean'' diff_mean (snd entry),
                          row_cells (fst entry) ''diff_std'' diff_std (snd entry)]) all)\<rparr>"
  by (simp add: create_song_level_breakdown_table_def frame_of_records_def
      breakdown_columns [OF assms] breakdown_table_rows)

lemma breakdown_table_empty:
  "create_song_level_breakdown_table [] = \<lparr>df_columns = [], df_rows = []\<rparr>"
  by (simp add: create_song_level_breakdown_table_def frame_of_records_def record_keys_def)













section \<open>Properties of the orchestrator\<close>

lemma all_differences_emit [simp]: "all_differences (emit evs st) = all_differences st"
  by (simp add: emit_def)

lemma trace_emit [simp]: "trace (emit evs st) = trace st @ evs"
  by (simp add: emit_def)

lemma posts_emit: "posts (emit evs st) = posts st + length (filter is_post evs)"
  by (simp add: posts_def)

lemma emit_emit: "emit ys (emit xs st) = emit (xs @ ys) st"
  by (simp add: emit_def)

lemma emit_Nil: "emit [] st = st"
  by (simp add: emit_def)

lemma analyze_audio_events:
  "fst (analyze_audio loads w k p n) = [] \<or> (\<exists>req. fst (analyze_audio loads w k p n) = [Post req])"
  by (auto simp: analyze_audio_def Let_def split: option.splits sum.splits)

lemma is_post_sample_line: "\<not> is_post (sample_line d)"
  by (simp add: sample_line_def split: option.splits)

lemma try_clip_cases:
  "(\<exists>evs. try_clip loads w truth_data song_id st = emit evs st \<and> length (filter is_post evs) \<le> 1) \<or>
   (\<exists>evs d. try_clip loads w truth_data song_id st =
             emit evs (st\<lparr>all_differences := AList.update song_id d (all_differences st)\<rparr>) \<and>
             length (filter is_post evs) \<le> 1)"
proof (cases "map_of listeners song_id")
  case None
  then have "try_clip loads w truth_data song_id st = emit [Print_error (KeyError song_id)] st"
    by (simp add: try_clip_def)
  then show ?thesis by (intro disjI1 exI [of _ "[Print_error (KeyError song_id)]"]) simp
next
  case (Some n)
  obtain evs result where a: "analyze_audio loads w (posts st) song_id n = (evs, result)"
    by (cases "analyze_audio loads w (posts st) song_id n")
  have evs: "length (filter is_post evs) \<le> 1"
    using analyze_audio_events [of loads w "posts st" song_id n] a by auto
  show ?thesis
  proof (cases result)
    case (Inl e)
    then have "try_clip loads w truth_data song_id st = emit (evs @ [Print_error e]) st"
      by (simp add: try_clip_def Some a emit_emit)
    with evs show ?thesis by (intro disjI1 exI [of _ "evs @ [Print_error e]"]) simp
  next
    case (Inr pred)
    show ?thesis
    proof (cases "map_of truth_data song_id")
      case None
      then have "try_clip loads w truth_data song_id st = emit (evs @ [Print_error (KeyError song_id)]) st"
        by (simp add: try_clip_def Some a Inr emit_emit)
      with evs show ?thesis
        by (intro disjI1 exI [of _ "evs @ [Print_error (KeyError song_id)]"]) simp
    next
      case truth: (Some truth)
      show ?thesis
      proof (cases "calculate_differences truth pred")
        case (Inl e)
        then have "try_clip loads w truth_data song_id st = emit (evs @ [Print_error e]) st"
          by (simp add: try_clip_def Some a Inr truth emit_emit)
        with evs show ?thesis by (intro disjI1 exI [of _ "evs @ [Print_error e]"]) simp
      next
        case d: (Inr d)
        have "try_clip loads w truth_data song_id st =
              emit (evs @ [sample_line d])
                (st\<lparr>all_differences := AList.update song_id d (all_differences st)\<rparr>)"
          by (simp add: try_clip_def Some a Inr truth d emit_def)
        with evs show ?thesis
          by (intro disjI2 exI [of _ "evs @ [sample_line d]"] exI [of _ d])
            (simp add: is_post_sample_line)
      qed
    qed
  qed
qed

lemma keys_update:
  "set (map fst (AList.update k v al)) = insert k (set (map fst al))"
  by (simp add: dom_update)

lemma process_clip_skip:
  "\<not> eligible truth_data song_id \<Longrightarrow>
   process_clip loads w truth_data song_id st =
     emit [Print (''Skipping '' @ song_id @ '': no truth data or listener count'')] st"
  by (auto simp: process_clip_def eligible_def)

lemma posts_update [simp]: "posts (st\<lparr>all_differences := x\<rparr>) = posts st"
  by (simp add: posts_def)

lemma process_clip_cases:
  "(all_differences (process_clip loads w truth_data song_id st) = all_differences st \<or>
    eligible truth_data song_id \<and>
    (\<exists>d. all_differences (process_clip loads w truth_data song_id st) =
          AList.update song_id d (all_differences st))) \<and>
   posts (process_clip loads w truth_data song_id st)
     \<le> posts st + (if eligible truth_data song_id then 1 else 0)"
proof (cases "eligible truth_data song_id")
  case False
  then show ?thesis by (simp add: process_clip_skip posts_emit)
next
  case True
  let ?st = "emit [Print (''Processing '' @ song_id @ ''...'')] st"
  have p: "process_clip loads w truth_data song_id st = try_clip loads w truth_data song_id ?st"
    using True by (auto simp: process_clip_def eligible_def)
  have "posts ?st = posts st" by (simp add: posts_emit)
  with try_clip_cases [of loads w truth_data song_id ?st] True show ?thesis
    unfolding p by (auto simp: posts_emit)
qed

lemma fold_process_keys_subset:
  "set (map fst (all_differences (fold (process_clip loads w truth_data) files st)))
     \<subseteq> set (map fst (all_differences st)) \<union> {s \<in> set files. eligible truth_data s}"
proof (induction files arbitrary: st)
  case Nil
  then show ?case by simp
next
  case (Cons s files)
  have step: "set (map fst (all_differences (process_clip loads w truth_data s st)))
        \<subseteq> set (map fst (all_differences st)) \<union> {x. x = s \<and> eligible truth_data s}"
  proof -
    from process_clip_cases [of loads w truth_data s st]
    consider "all_differences (process_clip loads w truth_data s st) = all_differences st"
      | d where "eligible truth_data s"
          "all_differences (process_clip loads w truth_data s st) = AList.update s d (all_differences st)"
      by blast
    then show ?thesis
    proof cases
      case 1
      then show ?thesis by simp
    next
      case 2
      then show ?thesis by (simp only: keys_update) auto
    qed
  qed
  show ?case
    using Cons.IH [of "process_clip loads w truth_data s st"] step by auto
qed

lemma fold_process_posts:
  "posts (fold (process_clip loads w truth_data) files st)
     \<le> posts st + length (filter (eligible truth_data) files)"
proof (induction files arbitrary: st)
  case Nil
  then show ?case by simp
next
  case (Cons s files)
  show ?case
    using Cons.IH [of "process_clip loads w truth_data s st"]
      process_clip_cases [of loads w truth_data s st]
    by (auto split: if_splits)
qed

lemma fold_process_order:
  "distinct files \<Longrightarrow> set files \<inter> set (map fst (all_differences st)) = {} \<Longrightarrow>
   map fst (all_differences (fold (process_clip loads w truth_data) files st)) =
   map fst (all_differences st) @
   filter (\<lambda>s. s \<in> set (map fst (all_differences (fold (process_clip loads w truth_data) files st)))) files"
proof (induction files arbitrary: st)
  case Nil
  then show ?case by simp
next
  case (Cons s files)
  let ?st = "process_clip loads w truth_data s st"
  define K where "K = map fst (all_differences (fold (process_clip loads w truth_data) files ?st))"
  define K0 where "K0 = map fst (all_differences st)"
  define K1 where "K1 = map fst (all_differences ?st)"
  have fresh: "s \<notin> set K0" "s \<notin> set files" "distinct files" "set files \<inter> set K0 = {}"
    using Cons.prems by (auto simp: K0_def)
  have keys: "K1 = K0 \<or> K1 = K0 @ [s]"
    using process_clip_cases [of loads w truth_data s st] fresh(1)
    unfolding K0_def K1_def by (auto simp: update_keys)
  have "set K1 \<subseteq> insert s (set K0)"
    using keys by auto
  then have disj: "set files \<inter> set K1 = {}"
    using fresh by auto
  have ih: "K = K1 @ filter (\<lambda>x. x \<in> set K) files"
    unfolding K_def K1_def by (rule Cons.IH [OF fresh(3) disj [unfolded K1_def]])
  have goal: "K = K0 @ filter (\<lambda>x. x \<in> set K) (s # files)"
    using keys
  proof
    assume same: "K1 = K0"
    have "set K \<subseteq> set K0 \<union> set files"
      by (subst ih) (auto simp: same)
    then have "s \<notin> set K" using fresh by auto
    with ih same show ?thesis by simp
  next
    assume app: "K1 = K0 @ [s]"
    have "set K1 \<subseteq> set K"
      by (subst ih) simp
    then have "s \<in> set K" using app by auto
    with ih app show ?thesis by simp
  qed
  have unroll: "fold (process_clip loads w truth_data) (s # files) st =
                fold (process_clip loads w truth_data) files ?st"
    by simp
  show ?case
    unfolding unroll using goal unfolding K_def K0_def .
qed

lemma save_results_emit:
  "\<exists>evs. save_results st = emit evs st \<and> filter is_post evs = []"
proof (cases "all_differences st \<noteq> []")
  case False
  then have "save_results st = emit [Print ''No results to save''] st"
    by (simp add: save_results_def)
  then show ?thesis by (intro exI [of _ "[Print ''No results to save'']"]) simp
next
  case True
  show ?thesis
  proof (cases "create_overall_summary_table (all_differences st)")
    case (Inl e)
    let ?evs = "[Print ([CHR 0x0A] @ ''Processed '' @ str_nat (length (all_differences st)) @ '' songs''),
                 Uncaught e]"
    have "save_results st = emit ?evs st"
      using True Inl by (simp add: save_results_def)
    then show ?thesis by (intro exI [of _ ?evs]) simp
  next
    case (Inr t)
    let ?evs = "[Print ([CHR 0x0A] @ ''Processed '' @ str_nat (length (all_differences st)) @ '' songs''),
                 To_csv ''table1_overall_summary.csv'' t,
                 To_csv ''table2_song_breakdown.csv''
                   (create_song_level_breakdown_table (all_differences st))]"
    have "save_results st = emit ?evs st"
      using True Inr by (simp add: save_results_def)
    then show ?thesis by (intro exI [of _ ?evs]) simp
  qed
qed

lemma main_state:
  "all_differences (main loads w (Some truth_data) audio_files) =
     all_differences (fold (process_clip loads w truth_data) audio_files (initial_state truth_data)) \<and>
   posts (main loads w (Some truth_data) audio_files) =
     posts (fold (process_clip loads w truth_data) audio_files (initial_state truth_data))"
proof -
  let ?st = "fold (process_clip loads w truth_data) audio_files (initial_state truth_data)"
  from save_results_emit [of ?st]
  obtain evs where "save_results ?st = emit evs ?st" and "filter is_post evs = []" by blast
  then show ?thesis by (simp add: main_def posts_emit)
qed

lemma analyze_audio_no_key:
  "api_key w = None \<or> api_key w = Some [] \<Longrightarrow>
   analyze_audio loads w k p n = ([], Inl (RuntimeError ''OPENROUTER_API_KEY not set''))"
  by (auto simp: analyze_audio_def)

lemma eligible_listener:
  "eligible truth_data song_id \<Longrightarrow> \<exists>n. map_of listeners song_id = Some n"
  by (metis eligible_def map_of_eq_None_iff not_Some_eq set_map)

lemma process_clip_no_key:
  assumes "api_key w = None \<or> api_key w = Some []"
  shows "process_clip loads w truth_data song_id st =
     emit (if eligible truth_data song_id
           then [Print (''Processing '' @ song_id @ ''...''),
                 Print_error (RuntimeError ''OPENROUTER_API_KEY not set'')]
           else [Print (''Skipping '' @ song_id @ '': no truth data or listener count'')]) st"
proof (cases "eligible truth_data song_id")
  case False
  then show ?thesis by (simp add: process_clip_skip)
next
  case True
  then obtain n where n: "map_of listeners song_id = Some n"
    using eligible_listener by blast
  have "process_clip loads w truth_data song_id st =
        try_clip loads w truth_data song_id (emit [Print (''Processing '' @ song_id @ ''...'')] st)"
    using True by (auto simp: process_clip_def eligible_def)
  also have "\<dots> = emit [Print_error (RuntimeError ''OPENROUTER_API_KEY not set'')]
                    (emit [Print (''Processing '' @ song_id @ ''...'')] st)"
    by (simp add: try_clip_def n analyze_audio_no_key [OF assms] emit_Nil)
  finally show ?thesis using True by (simp add: emit_emit)
qed

lemma fold_process_no_key:
  assumes "api_key w = None \<or> api_key w = Some []"
  shows "fold (process_clip loads w truth_data) files st =
     emit (concat (map (\<lambda>song_id.
             if eligible truth_data song_id
             then [Print (''Processing '' @ song_id @ ''...''),
                   Print_error (RuntimeError ''OPENROUTER_API_KEY not set'')]
             else [Print (''Skipping '' @ song_id @ '': no truth data or listener count'')]) files)) st"
proof (induction files arbitrary: st)
  case Nil
  then show ?case by (simp add: emit_Nil)
next
  case (Cons s files)
  have "fold (process_clip loads w truth_data) (s # files) st =
        fold (process_clip loads w truth_data) files (process_clip loads w truth_data s st)"
    by simp
  also note Cons.IH
  also note process_clip_no_key [OF assms]
  finally show ?case by (simp add: emit_emit)
qed

text \<open>
  C1, as the specification states it: without the credential the run aborts at the
  first clip. The handler of the loop catches the \<^verbatim>\<open>RuntimeError\<close> as it catches any
  other exception, and the loop goes on to the next clip.
\<close>

theorem missing_credential_counterexample:
  "trace (main json_loads
            \<lparr>api_key = None, read_audio = (\<lambda>p. None), http_post = (\<lambda>k r. Inl RequestException)\<rparr>
            (Some [(''song_1'', JObj []), (''song_2'', JObj [])]) [''song_1'', ''song_2'']) =
     [Print ''Loaded truth data for 2 songs'',
      Print ''Processing song_1...'',
      Print_error (RuntimeError ''OPENROUTER_API_KEY not set''),
      Print ''Processing song_2...'',
      Print_error (RuntimeError ''OPENROUTER_API_KEY not set''),
      Print ''No results to save'']"
  by code_simp

text \<open>
  C1, amended: when \<^verbatim>\<open>OPENROUTER_API_KEY\<close> is absent (or empty), the configuration
  error of \<^verbatim>\<open>analyze_audio\<close> is caught for each clip on its own: every clip that has
  ground truth and a listener count is announced and its error printed, every other
  clip is skipped, no request is sent, no difference record is kept, and the run ends
  with \<open>No results to save\<close> without writing a table.
\<close>

theorem missing_credential_run:
  assumes "api_key w = None \<or> api_key w = Some []"
  shows "main loads w (Some truth_data) audio_files =
     \<lparr>all_differences = [],
      trace =
        [Print (''Loaded truth data for '' @ str_nat (length truth_data) @ '' songs'')] @
        concat (map (\<lambda>song_id.
             if eligible truth_data song_id
             then [Print (''Processing '' @ song_id @ ''...''),
                   Print_error (RuntimeError ''OPENROUTER_API_KEY not set'')]
             else [Print (''Skipping '' @ song_id @ '': no truth data or listener count'')])
           audio_files) @
        [Print ''No results to save'']\<rparr>"
  by (simp add: main_def fold_process_no_key [OF assms] save_results_def initial_state_def emit_def)

text \<open>A run of the amended C1, with an empty credential.\<close>

theorem missing_credential_run_witness:
  "(api_key \<lparr>api_key = Some [], read_audio = (\<lambda>p. Some ''abc''),
             http_post = (\<lambda>k r. Inl RequestException)\<rparr> = None \<or>
    api_key \<lparr>api_key = Some [], read_audio = (\<lambda>p. Some ''abc''),
             http_post = (\<lambda>k r. Inl RequestException)\<rparr> = Some []) \<and>
   main json_loads
     \<lparr>api_key = Some [], read_audio = (\<lambda>p. Some ''abc''),
      http_post = (\<lambda>k r. Inl RequestException)\<rparr>
     (Some [(''song_7'', JObj [])]) [''song_7'', ''song_99''] =
     \<lparr>all_differences = [],
      trace = [Print ''Loaded truth data for 1 songs'',
               Print ''Processing song_7...'',
               Print_error (RuntimeError ''OPENROUTER_API_KEY not set''),
               Print ''Skipping song_99: no truth data or listener count'',
               Print ''No results to save'']\<rparr>"
proof -
  let ?w = "\<lparr>api_key = Some [], read_audio = (\<lambda>p. Some ''abc''),
             http_post = (\<lambda>k r. Inl RequestException)\<rparr>"
  have k: "api_key ?w = None \<or> api_key ?w = Some []" by simp
  have e: "eligible [(''song_7'', JObj [])] ''song_7''" "\<not> eligible [(''song_7'', JObj [])] ''song_99''"
    by (simp_all add: eligible_def listeners_def)
  have n: "str_nat (length [(''song_7'', JObj [])]) = ''1''" by code_simp
  from missing_credential_run [OF k, of json_loads "[(''song_7'', JObj [])]" "[''song_7'', ''song_99'']"]
  show ?thesis using k e n by simp
qed

text \<open>
  C8: a clip that is missing from the ground truth or from the listener counts costs
  one iteration of the loop a single printed line: no request is sent, the record of
  differences is unchanged, and the loop goes on with the next clip. Over a whole run
  such a clip is never a key of \<^verbatim>\<open>all_differences\<close>, and there are no more requests
  than clips that have both.
\<close>

theorem skipped_clip:
  assumes "song_id \<notin> set (map fst truth_data) \<or> song_id \<notin> set (map fst listeners)"
  shows "process_clip loads w truth_data song_id st =
           emit [Print (''Skipping '' @ song_id @ '': no truth data or listener count'')] st \<and>
         all_differences (process_clip loads w truth_data song_id st) = all_differences st \<and>
         posts (process_clip loads w truth_data song_id st) = posts st \<and>
         fold (process_clip loads w truth_data) (song_id # rest) st =
           fold (process_clip loads w truth_data) rest
             (emit [Print (''Skipping '' @ song_id @ '': no truth data or listener count'')] st) \<and>
         song_id \<notin> set (map fst (all_differences (main loads w (Some truth_data) audio_files))) \<and>
         posts (main loads w (Some truth_data) audio_files)
           \<le> length (filter (eligible truth_data) audio_files)"
proof -
  have ne: "\<not> eligible truth_data song_id" using assms by (auto simp: eligible_def)
  have skip: "process_clip loads w truth_data song_id st =
           emit [Print (''Skipping '' @ song_id @ '': no truth data or listener count'')] st"
    for st by (rule process_clip_skip [OF ne])
  have keys: "set (map fst (all_differences (main loads w (Some truth_data) audio_files)))
      \<subseteq> {s \<in> set audio_files. eligible truth_data s}"
    using fold_process_keys_subset [of loads w truth_data audio_files "initial_state truth_data"]
    by (simp add: main_state initial_state_def)
  have "posts (initial_state truth_data) = 0"
    by (simp add: posts_def initial_state_def)
  then have p: "posts (main loads w (Some truth_data) audio_files)
           \<le> length (filter (eligible truth_data) audio_files)"
    using fold_process_posts [of loads w truth_data audio_files "initial_state truth_data"]
    by (simp add: main_state)
  show ?thesis
    using skip keys ne p by (auto simp: posts_emit)
qed

text \<open>A run of C8: \<open>song_x\<close> has no ground truth.\<close>

theorem skipped_clip_witness:
  "''song_x'' \<notin> set (map fst [(''song_1'', JObj [])]) \<and>
   process_clip json_loads
     \<lparr>api_key = None, read_audio = (\<lambda>p. None), http_post = (\<lambda>k r. Inl RequestException)\<rparr>
     [(''song_1'', JObj [])] ''song_x'' (initial_state [(''song_1'', JObj [])]) =
     \<lparr>all_differences = [],
      trace = [Print ''Loaded truth data for 1 songs'',
               Print ''Skipping song_x: no truth data or listener count'']\<rparr> \<and>
   ''song_x'' \<notin> set (map fst (all_differences (main json_loads
     \<lparr>api_key = None, read_audio = (\<lambda>p. None), http_post = (\<lambda>k r. Inl RequestException)\<rparr>
     (Some [(''song_1'', JObj [])]) [''song_x'', ''song_1''])))"
proof -
  let ?w = "\<lparr>api_key = None, read_audio = (\<lambda>p. None), http_post = (\<lambda>k r. Inl RequestException)\<rparr>"
  have h: "''song_x'' \<notin> set (map fst [(''song_1'', JObj [])])" by simp
  then have h': "''song_x'' \<notin> set (map fst [(''song_1'', JObj [])]) \<or>
                 ''song_x'' \<notin> set (map fst listeners)" ..
  have n: "str_nat (length [(''song_1'', JObj [])]) = ''1''" by code_simp
  from skipped_clip [OF h', of json_loads ?w "initial_state [(''song_1'', JObj [])]" "[]"
      "[''song_x'', ''song_1'']"]
  show ?thesis using h n by (simp add: initial_state_def emit_def)
qed








section \<open>Properties of the extractor\<close>









section \<open>Properties of the prompt\<close>








section \<open>Properties of the summary and of the order of the tables\<close>

lemma collect_song_eq:
  "collect_song d es acc =
     (fst acc @ record_values diff_mean d es, snd acc @ record_values diff_std d es)"
  by (induction es arbitrary: acc) (simp_all add: record_values_def split: option.splits)

lemma collect_all_eq:
  "collect_all all acc =
     (fst acc @ concat (map (\<lambda>entry. record_values diff_mean (snd entry) emotions) all),
      snd acc @ concat (map (\<lambda>entry. record_values diff_std (snd entry) emotions) all))"
  by (induction all arbitrary: acc) (simp_all add: collect_song_eq)






lemma average_total:
  "average xs = Inr (if xs = [] then 0 else sum_list xs / of_nat (length xs))"
  by (simp add: average_def py_truediv_def)


lemma summary_table_eq:
  "create_overall_summary_table all =
     (case average (concat (map (\<lambda>entry. record_values diff_mean (snd entry) emotions) all)) of
        Inl e \<Rightarrow> Inl e
      | Inr a \<Rightarrow>
          (case average (concat (map (\<lambda>entry. record_values diff_std (snd entry) emotions) all)) of
             Inl e \<Rightarrow> Inl e
           | Inr b \<Rightarrow>
               Inr \<lparr>df_columns = [''Metric'', ''Value''],
                    df_rows = [[Some ''Average Difference in Mean'', Some (fmt4 a)],
                               [Some ''Average Difference in Std'', Some (fmt4 b)]]\<rparr>))"
  by (simp add: create_overall_summary_table_def collect_all_eq frame_of_columns_def Let_def
      split: sum.splits)

lemma summary_table_columns:
  assumes "create_overall_summary_table all = Inr t"
  shows "df_columns t = [''Metric'', ''Value'']"
  using assms unfolding summary_table_eq average_total by auto




lemma main_order:
  assumes "distinct audio_files"
  shows "map fst (all_differences (main loads w (Some truth_data) audio_files)) =
         filter (\<lambda>s. s \<in> set (map fst (all_differences (main loads w (Some truth_data) audio_files))))
           audio_files"
proof -
  define F where "F = fold (process_clip loads w truth_data) audio_files (initial_state truth_data)"
  have ms: "all_differences (main loads w (Some truth_data) audio_files) = all_differences F"
    unfolding F_def using main_state by blast
  have e: "map fst (all_differences (initial_state truth_data)) = []"
    by (simp add: initial_state_def)
  have "set audio_files \<inter> set (map fst (all_differences (initial_state truth_data))) = {}"
    by (simp add: e)
  from fold_process_order [OF assms this, of loads w truth_data]
  have "map fst (all_differences F) =
        map fst (all_differences (initial_state truth_data)) @
        filter (\<lambda>s. s \<in> set (map fst (all_differences F))) audio_files"
    unfolding F_def .
  then have "map fst (all_differences F) =
        filter (\<lambda>s. s \<in> set (map fst (all_differences F))) audio_files"
    by (simp only: e append_Nil)
  then show ?thesis unfolding ms .
qed

lemma process_clip_success:
  assumes "map_of listeners s = Some n"
    and "analyze_audio loads w (posts st) s n = (evs, Inr pred)"
    and "map_of truth_data s = Some truth"
    and "calculate_differences truth pred = Inr d"
  shows "all_differences (process_clip loads w truth_data s st) = AList.update s d (all_differences st)"
proof -
  define st' where "st' = emit [Print (''Processing '' @ s @ ''...'')] st"
  have p: "posts st' = posts st" and a: "all_differences st' = all_differences st"
    unfolding st'_def by (simp_all add: posts_emit)
  have "s \<in> set (map fst truth_data)" "s \<in> set (map fst listeners)"
    using assms(1,3) by (metis map_of_eq_None_iff option.distinct(1) set_map)+
  then have "process_clip loads w truth_data s st = try_clip loads w truth_data s st'"
    unfolding st'_def by (simp add: process_clip_def)
  moreover have "all_differences (try_clip loads w truth_data s st') =
                 AList.update s d (all_differences st')"
    by (simp add: try_clip_def assms p)
  ultimately show ?thesis by (simp add: a)
qed

text \<open>
  C7: the columns of the breakdown of a corpus that is not empty are \<open>song_id\<close>,
  \<open>metric\<close> and the nine emotions in the canonical order; in both tables the emotion
  columns, where there are any (the summary has only \<open>Metric\<close> and \<open>Value\<close>), stand in
  the canonical order, which is also the order in which the summary reads each record;
  the rows of the breakdown follow the order of \<^verbatim>\<open>all_differences\<close>, two rows for each
  clip; and in a run the keys of \<^verbatim>\<open>all_differences\<close> stand in the order in which the
  glob yielded their clips, not sorted.
\<close>

theorem tables_in_canonical_order:
  "(all \<noteq> [] \<longrightarrow>
      df_columns (create_song_level_breakdown_table all) = ''song_id'' # ''metric'' # emotions) \<and>
   filter (\<lambda>c. c \<in> set emotions) (df_columns (create_song_level_breakdown_table all)) =
     filter (\<lambda>e. e \<in> set (df_columns (create_song_level_breakdown_table all))) emotions \<and>
   (\<forall>t. create_overall_summary_table all = Inr t \<longrightarrow>
      filter (\<lambda>c. c \<in> set emotions) (df_columns t) =
        filter (\<lambda>e. e \<in> set (df_columns t)) emotions) \<and>
   collect_all all ([], []) =
     (concat (map (\<lambda>entry. record_values diff_mean (snd entry) emotions) all),
      concat (map (\<lambda>entry. record_values diff_std (snd entry) emotions) all)) \<and>
   map hd (df_rows (create_song_level_breakdown_table all)) =
     concat (map (\<lambda>entry. [Some (fst entry), Some (fst entry)]) all) \<and>
   (distinct audio_files \<longrightarrow>
      map fst (all_differences (main loads w (Some truth_data) audio_files)) =
        filter (\<lambda>s. s \<in> set (map fst (all_differences (main loads w (Some truth_data) audio_files))))
          audio_files)"
proof (intro conjI allI impI)
  show "df_columns (create_song_level_breakdown_table all) = ''song_id'' # ''metric'' # emotions"
    if "all \<noteq> []"
    using that by (simp add: breakdown_table_nonempty breakdown_header_def)
  show "filter (\<lambda>c. c \<in> set emotions) (df_columns (create_song_level_breakdown_table all)) =
     filter (\<lambda>e. e \<in> set (df_columns (create_song_level_breakdown_table all))) emotions"
  proof (cases "all = []")
    case True
    then show ?thesis by (simp add: breakdown_table_empty)
  next
    case False
    have "filter (\<lambda>c. c \<in> set emotions) breakdown_header = emotions"
      by (simp add: breakdown_header_def emotions_def)
    moreover have "filter (\<lambda>e. e \<in> set breakdown_header) emotions = emotions"
      by (simp add: breakdown_header_def)
    ultimately show ?thesis using False by (simp add: breakdown_table_nonempty)
  qed
  show "filter (\<lambda>c. c \<in> set emotions) (df_columns t) = filter (\<lambda>e. e \<in> set (df_columns t)) emotions"
    if "create_overall_summary_table all = Inr t" for t
  proof -
    from that have "df_columns t = [''Metric'', ''Value'']"
      by (rule summary_table_columns)
    then show ?thesis by (simp add: emotions_def)
  qed
  show "collect_all all ([], []) =
     (concat (map (\<lambda>entry. record_values diff_mean (snd entry) emotions) all),
      concat (map (\<lambda>entry. record_values diff_std (snd entry) emotions) all))"
    by (simp add: collect_all_eq)
  show "map hd (df_rows (create_song_level_breakdown_table all)) =
     concat (map (\<lambda>entry. [Some (fst entry), Some (fst entry)]) all)"
  proof (cases "all = []")
    case True
    then show ?thesis by (simp add: breakdown_table_empty)
  next
    case False
    have "map hd (concat (map (\<lambda>entry. [row_cells (fst entry) ''diff_mean'' diff_mean (snd entry),
                          row_cells (fst entry) ''diff_std'' diff_std (snd entry)]) all)) =
          concat (map (\<lambda>entry. [Some (fst entry), Some (fst entry)]) all)"
      by (induction all) (simp_all add: row_cells_def)
    with False show ?thesis by (simp add: breakdown_table_nonempty)
  qed
  show "map fst (all_differences (main loads w (Some truth_data) audio_files)) =
        filter (\<lambda>s. s \<in> set (map fst (all_differences (main loads w (Some truth_data) audio_files))))
          audio_files" if "distinct audio_files"
    by (rule main_order [OF that])
qed


text \<open>A run of C7: \<open>song_2\<close> comes before \<open>song_1\<close> and stays there.\<close>

theorem tables_in_canonical_order_witness:
  \<open>[(''song_2'', []), (''song_1'', [])] \<noteq> ([] :: corpus) \<and>
   df_columns (create_song_level_breakdown_table [(''song_2'', []), (''song_1'', [])]) =
     [''song_id'', ''metric'', ''amazement'', ''solemnity'', ''tenderness'', ''nostalgia'',
      ''calmness'', ''power'', ''joyful_activation'', ''tension'', ''sadness''] \<and>
   map hd (df_rows (create_song_level_breakdown_table [(''song_2'', []), (''song_1'', [])])) =
     [Some ''song_2'', Some ''song_2'', Some ''song_1'', Some ''song_1''] \<and>
   distinct [''song_2'', ''song_1''] \<and>
   map fst (all_differences (main json_loads
      \<lparr>api_key = Some ''k'', read_audio = (\<lambda>p. Some ''abc''),
       http_post = (\<lambda>k r. Inr \<lparr>status_code = 200,
                                body = ''{"choices":[{"message":{"content":"{}"}}]}''\<rparr>)\<rparr>
      (Some [(''song_2'', JObj []), (''song_1'', JObj [])]) [''song_2'', ''song_1''])) =
     [''song_2'', ''song_1'']\<close>
proof -
  let ?all = "[(''song_2'', []), (''song_1'', [])] :: corpus"
  let ?w = \<open>\<lparr>api_key = Some ''k'', read_audio = (\<lambda>p. Some ''abc''),
       http_post = (\<lambda>k r. Inr \<lparr>status_code = 200,
                                body = ''{"choices":[{"message":{"content":"{}"}}]}''\<rparr>)\<rparr>\<close>
  let ?t = "[(''song_2'', JObj []), (''song_1'', JObj [])]"
  let ?files = "[''song_2'', ''song_1'']"
  note t = tables_in_canonical_order [of ?all ?files json_loads ?w ?t]
  have ne: "?all \<noteq> []" by simp
  have d: "distinct ?files" by simp
  have c: "df_columns (create_song_level_breakdown_table ?all) = ''song_id'' # ''metric'' # emotions"
    using t ne by blast
  have r: "map hd (df_rows (create_song_level_breakdown_table ?all)) =
     concat (map (\<lambda>entry. [Some (fst entry), Some (fst entry)]) ?all)"
    using t by (elim conjE)
  have o: "map fst (all_differences (main json_loads ?w (Some ?t) ?files)) =
        filter (\<lambda>s. s \<in> set (map fst (all_differences (main json_loads ?w (Some ?t) ?files))))
          ?files"
    using t d by blast
  have b: \<open>json_loads ''{"choices":[{"message":{"content":"{}"}}]}'' =
           Some (JObj [(''choices'', JArr [JObj [(''message'', JObj [(''content'', JStr ''{}'')])]])])\<close>
    by code_simp
  have e: "json_loads ''{}'' = Some (JObj [])" by code_simp
  have an: "\<exists>evs. analyze_audio json_loads ?w k s n = (evs, Inr (JObj []))" for k s n
    by (simp add: analyze_audio_def Let_def response_content_def decode_content_def
        extract_json_def b e)
  obtain dd where dd: "calculate_differences (JObj []) (JObj []) = Inr dd"
    using calculate_differences_total [of "JObj []" "JObj []"] by auto
  have l2: "map_of listeners ''song_2'' = Some 47" and l1: "map_of listeners ''song_1'' = Some 48"
    by (simp_all add: listeners_def)
  have step: "all_differences (process_clip json_loads ?w ?t s st) = AList.update s dd (all_differences st)"
    if "map_of listeners s = Some n" "map_of ?t s = Some (JObj [])" for s n st
  proof -
    from an obtain evs where
      "analyze_audio json_loads ?w (posts st) s n = (evs, Inr (JObj []))"
      by blast
    from process_clip_success [OF that(1) this that(2) dd] show ?thesis .
  qed
  have "all_differences (main json_loads ?w (Some ?t) ?files) =
        AList.update ''song_1'' dd (AList.update ''song_2'' dd [])"
    by (simp add: main_state step [OF l2] step [OF l1] initial_state_def)
  then have ev: "map fst (all_differences (main json_loads ?w (Some ?t) ?files)) = ?files"
    by simp
  have o': "map fst (all_differences (main json_loads ?w (Some ?t) ?files)) = ?files"
    using o ev by simp
  show ?thesis
    using ne c r d o' by (simp add: emotions_def)
qed


end
